theory Spec2Isabelle
  imports Complex_Main "HOL-Library.AList" "HOL-Library.Multiset"
begin

section \<open>The storage engine (movie\_storage\_sql.py)\<close>

text \<open>
  The table \<open>movies\<close> of \<open>create_table\<close> has the columns \<open>title TEXT UNIQUE NOT NULL\<close>,
  \<open>year INTEGER NOT NULL\<close>, \<open>rating REAL NOT NULL\<close> and a nullable \<open>poster_url TEXT\<close>.
  A row is the tuple that \<open>SELECT title, year, rating, poster_url\<close> delivers; the
  surrogate \<open>id\<close> column is never selected and is left out. Ratings are real numbers
  (the arithmetic of the code is IEEE double; rounding is not modelled), years are
  unbounded integers as in Python. A string is a list of 8-bit characters, which is
  Python's \<open>str\<close> as long as the text is ASCII.
\<close>

type_synonym row = "string \<times> int \<times> real \<times> string option"

text \<open>The dictionary \<open>{"year": .., "rating": .., "poster_url": ..}\<close> built by \<open>list_movies\<close>.\<close>

record info =
  year :: int
  rating :: real
  poster_url :: "string option"

text \<open>
  The exceptions of \<open>sqlalchemy.exc\<close>: the two classes the module imports and handles,
  and \<open>DatabaseError\<close>, their common parent, for every other failure of the driver.
  \<open>OperationalError\<close> and \<open>DatabaseError\<close> carry the text of \<open>str(e)\<close>. An exception of
  the store that leaves a function is a \<open>StorageError\<close>; the others are the Python
  exceptions that the functions of movies.py can meet.
\<close>

datatype db_exn = IntegrityError | OperationalError string | DatabaseError string

datatype exn = StorageError db_exn | ValueError | ZeroDivisionError | EOFError | RequestException string

text \<open>
  The store behind \<open>engine\<close>: either the table, its rows in rowid (insertion) order,
  or a store on which connecting or executing a statement raises.
\<close>

datatype db = Table "row list" | Broken db_exn

text \<open>What a call leaves behind: the value returned or the exception that escapes,
  the lines printed, and the store.\<close>

record 'a outcome =
  result :: "exn + 'a"
  printed :: "string list"
  store :: db

fun row_title :: "row \<Rightarrow> string" where
  "row_title (ttl, yr, rt, pu) = ttl"

definition titles :: "row list \<Rightarrow> string list" where
  "titles rows = map row_title rows"

subsection \<open>The four SQL statements\<close>

text \<open>\<open>SELECT title, year, rating, poster_url FROM movies\<close>\<close>

fun sql_select :: "db \<Rightarrow> db_exn + row list" where
  "sql_select (Broken e) = Inl e"
| "sql_select (Table rows) = Inr rows"

text \<open>\<open>INSERT INTO movies (title, year, rating, poster_url) VALUES (..)\<close>: the \<open>UNIQUE\<close>
  constraint on \<open>title\<close> rejects a title the table holds, with an \<open>IntegrityError\<close>.\<close>

fun sql_insert :: "db \<Rightarrow> row \<Rightarrow> db_exn + db" where
  "sql_insert (Broken e) new = Inl e"
| "sql_insert (Table rows) new =
     (if row_title new \<in> set (titles rows) then Inl IntegrityError
      else Inr (Table (rows @ [new])))"

text \<open>\<open>DELETE FROM movies WHERE title = :title\<close>, with the statement's \<open>rowcount\<close>.\<close>

fun sql_delete :: "db \<Rightarrow> string \<Rightarrow> db_exn + (nat \<times> db)" where
  "sql_delete (Broken e) ttl = Inl e"
| "sql_delete (Table rows) ttl =
     Inr (length (filter (\<lambda>r. row_title r = ttl) rows),
          Table (filter (\<lambda>r. row_title r \<noteq> ttl) rows))"

text \<open>\<open>UPDATE movies SET rating = :rating WHERE title = :title\<close>, with its \<open>rowcount\<close>.\<close>

fun set_rating :: "string \<Rightarrow> real \<Rightarrow> row \<Rightarrow> row" where
  "set_rating ttl rt' (t, yr, rt, pu) = (if t = ttl then (t, yr, rt', pu) else (t, yr, rt, pu))"

fun sql_update :: "db \<Rightarrow> string \<Rightarrow> real \<Rightarrow> db_exn + (nat \<times> db)" where
  "sql_update (Broken e) ttl rt = Inl e"
| "sql_update (Table rows) ttl rt =
     Inr (length (filter (\<lambda>r. row_title r = ttl) rows),
          Table (map (set_rating ttl rt) rows))"

subsection \<open>The functions of the module\<close>

text \<open>A Python \<open>dict\<close> keeps its keys in insertion order and a repeated key overwrites the
  value in place: an association list under \<open>AList.update\<close>.\<close>

type_synonym movies = "(string \<times> info) list"

fun row_info :: "row \<Rightarrow> info" where
  "row_info (ttl, yr, rt, pu) = \<lparr>year = yr, rating = rt, poster_url = pu\<rparr>"

definition dict_of_rows :: "row list \<Rightarrow> movies" where
  "dict_of_rows rows = foldl (\<lambda>d r. AList.update (row_title r) (row_info r) d) [] rows"

definition db_error_msg :: "string \<Rightarrow> string" where
  "db_error_msg e = ''Database error: '' @ e"

text \<open>The f-strings \<open>f"Movie '{title}' added successfully."\<close> and its siblings.\<close>

definition movie_msg :: "string \<Rightarrow> string \<Rightarrow> string" where
  "movie_msg ttl what = ''Movie '' @ [CHR 0x27] @ ttl @ [CHR 0x27] @ '' '' @ what"

text \<open>\<open>list_movies\<close>: only an \<open>OperationalError\<close> is handled; any other exception leaves
  the function.\<close>

definition list_movies :: "db \<Rightarrow> movies outcome" where
  "list_movies d =
     (case sql_select d of
        Inr rows \<Rightarrow> \<lparr>result = Inr (dict_of_rows rows), printed = [], store = d\<rparr>
      | Inl (OperationalError e) \<Rightarrow> \<lparr>result = Inr [], printed = [db_error_msg e], store = d\<rparr>
      | Inl x \<Rightarrow> \<lparr>result = Inl (StorageError x), printed = [], store = d\<rparr>)"

text \<open>\<open>add_movie(title, year, rating, poster_url="")\<close>\<close>

definition add_movie :: "db \<Rightarrow> string \<Rightarrow> int \<Rightarrow> real \<Rightarrow> string \<Rightarrow> unit outcome" where
  "add_movie d ttl yr rt pu =
     (case sql_insert d (ttl, yr, rt, Some pu) of
        Inr d' \<Rightarrow> \<lparr>result = Inr (), printed = [movie_msg ttl ''added successfully.''], store = d'\<rparr>
      | Inl IntegrityError \<Rightarrow>
          \<lparr>result = Inr (), printed = [movie_msg ttl ''already exists.''], store = d\<rparr>
      | Inl (OperationalError e) \<Rightarrow> \<lparr>result = Inr (), printed = [db_error_msg e], store = d\<rparr>
      | Inl x \<Rightarrow> \<lparr>result = Inl (StorageError x), printed = [], store = d\<rparr>)"

text \<open>\<open>delete_movie(title)\<close>: \<open>IntegrityError\<close> is not handled here.\<close>

definition delete_movie :: "db \<Rightarrow> string \<Rightarrow> unit outcome" where
  "delete_movie d ttl =
     (case sql_delete d ttl of
        Inr (rowcount, d') \<Rightarrow>
          (if rowcount > 0
           then \<lparr>result = Inr (), printed = [movie_msg ttl ''deleted successfully.''], store = d'\<rparr>
           else \<lparr>result = Inr (), printed = [movie_msg ttl ''not found.''], store = d'\<rparr>)
      | Inl (OperationalError e) \<Rightarrow> \<lparr>result = Inr (), printed = [db_error_msg e], store = d\<rparr>
      | Inl x \<Rightarrow> \<lparr>result = Inl (StorageError x), printed = [], store = d\<rparr>)"

text \<open>\<open>update_movie(title, rating)\<close>\<close>

definition update_movie :: "db \<Rightarrow> string \<Rightarrow> real \<Rightarrow> unit outcome" where
  "update_movie d ttl rt =
     (case sql_update d ttl rt of
        Inr (rowcount, d') \<Rightarrow>
          (if rowcount > 0
           then \<lparr>result = Inr (), printed = [movie_msg ttl ''updated successfully.''], store = d'\<rparr>
           else \<lparr>result = Inr (), printed = [movie_msg ttl ''not found.''], store = d'\<rparr>)
      | Inl (OperationalError e) \<Rightarrow> \<lparr>result = Inr (), printed = [db_error_msg e], store = d\<rparr>
      | Inl x \<Rightarrow> \<lparr>result = Inl (StorageError x), printed = [], store = d\<rparr>)"

text \<open>The \<open>UNIQUE\<close> constraint as a property of a table.\<close>

definition unique_titles :: "db \<Rightarrow> bool" where
  "unique_titles d = (case d of Table rows \<Rightarrow> distinct (titles rows) | Broken e \<Rightarrow> True)"

section \<open>The catalog (movies.py)\<close>

text \<open>
  What the module takes from outside the repository: the API key of the environment, the
  HTTP request (\<open>requests.get(..).json()\<close>, a JSON object of strings or a
  \<open>RequestException\<close>), the parsers \<open>int\<close> and \<open>float\<close> (\<open>None\<close> where they raise
  \<open>ValueError\<close>) and the formatting of a float by \<open>str\<close> and by \<open>:.1f\<close>.
\<close>

record env =
  api_key :: string
  http_get :: "string \<Rightarrow> exn + (string \<rightharpoonup> string)"
  py_int :: "string \<Rightarrow> int option"
  py_float :: "string \<Rightarrow> real option"
  str_float :: "real \<Rightarrow> string"
  fmt_1f :: "real \<Rightarrow> string"

definition THEME :: string where "THEME = [CHR 0x1B] @ ''[0;92;40m''"
definition RESET :: string where "RESET = [CHR 0x1B] @ ''[0m''"
definition RED :: string where "RED = [CHR 0x1B] @ ''[91m''"


subsection \<open>Python's built-ins on strings and lists\<close>

text \<open>\<open>str\<close> of an integer.\<close>

definition digit_char :: "nat \<Rightarrow> char" where
  "digit_char n = char_of (48 + n)"

fun str_nat :: "nat \<Rightarrow> string" where
  "str_nat n = (if n < 10 then [digit_char n] else str_nat (n div 10) @ [digit_char (n mod 10)])"

definition str_int :: "int \<Rightarrow> string" where
  "str_int i = (if i < 0 then ''-'' @ str_nat (nat (- i)) else str_nat (nat i))"








text \<open>\<open>max(xs, key=..)\<close> and \<open>min(xs, key=..)\<close>: the running best is replaced only by a
  strictly better element; an empty argument raises \<open>ValueError\<close>.\<close>

fun max_from :: "('a \<Rightarrow> real) \<Rightarrow> 'a \<Rightarrow> 'a list \<Rightarrow> 'a" where
  "max_from key m [] = m"
| "max_from key m (x # xs) = max_from key (if key x > key m then x else m) xs"

fun min_from :: "('a \<Rightarrow> real) \<Rightarrow> 'a \<Rightarrow> 'a list \<Rightarrow> 'a" where
  "min_from key m [] = m"
| "min_from key m (x # xs) = min_from key (if key x < key m then x else m) xs"




text \<open>\<open>sorted(xs, key=.., reverse=True)\<close>: the list is reversed, sorted by a stable
  ascending sort, and reversed again.\<close>

definition py_sorted_reverse :: "('a \<Rightarrow> real) \<Rightarrow> 'a list \<Rightarrow> 'a list" where
  "py_sorted_reverse key xs = rev (sort_key key (rev xs))"

subsection \<open>The functions of the module\<close>

text \<open>\<open>format_movie_line(title, info, width=45)\<close>; every call leaves \<open>width\<close> at its default.\<close>

definition format_movie_line :: "env \<Rightarrow> string \<Rightarrow> info \<Rightarrow> string" where
  "format_movie_line ev ttl nfo =
     (let width = (45::int);
          label = '' '' @ ttl @ '' ('' @ str_int (year nfo) @ '')'';
          val = '' '' @ str_float ev (rating nfo);
          dots = width - int (length label) - int (length val);
          dots = (if dots < 3 then 3 else dots)
      in label @ '' '' @ replicate (nat dots) (CHR ''.'') @ val)"











text \<open>\<open>movies_sorted_by_rating()\<close>\<close>

definition movies_sorted_by_rating :: "env \<Rightarrow> db \<Rightarrow> unit outcome" where
  "movies_sorted_by_rating ev d =
     (let lm = list_movies d
      in case result lm of
           Inl x \<Rightarrow> \<lparr>result = Inl x, printed = printed lm, store = store lm\<rparr>
         | Inr movies \<Rightarrow>
             if movies = [] then
               \<lparr>result = Inr (),
                printed = printed lm @ [[CHR 0x0A] @ RED @ ''  No movies to sort.'' @ RESET],
                store = store lm\<rparr>
             else
               let sorted_movies = py_sorted_reverse (\<lambda>x. rating (snd x)) movies
               in \<lparr>result = Inr (),
                   printed = printed lm @
                     [[CHR 0x0A] @ THEME @ ''  MOVIES SORTED BY RATING:'' @ RESET @ [CHR 0x0A]] @
                     map (\<lambda>(ttl, nfo). THEME @ format_movie_line ev ttl nfo @ RESET) sorted_movies,
                   store = store lm\<rparr>)"






section \<open>Notions of the specification and sample data\<close>


text \<open>An environment to run the functions in: the API answers every request with a movie
  that has a year of 0 and no rating, and the parsers and formats know a few numbers.\<close>

definition sample_env :: env where
  "sample_env =
     \<lparr>api_key = ''k'',
      http_get = (\<lambda>ttl. Inr [''Response'' \<mapsto> ''True'', ''Year'' \<mapsto> ''0'']),
      py_int = (\<lambda>s. if s = ''0'' then Some 0 else if s = ''1999'' then Some 1999 else None),
      py_float = (\<lambda>s. if s = ''0'' then Some 0 else if s = ''7.5'' then Some (15 / 2) else None),
      str_float = (\<lambda>r. if r = 8 then ''8.0'' else if r = 15 / 2 then ''7.5''
                        else if r = 17 / 5 then ''3.4'' else ''0.0''),
      fmt_1f = (\<lambda>r. if r = 63 / 10 then ''6.3'' else ''0.0'')\<rparr>"

text \<open>A table of three movies.\<close>

definition sample_rows :: "row list" where
  "sample_rows =
     [(''Catwoman'', 2004, 17 / 5, Some ''N/A''),
      (''Batman'', 1989, 15 / 2, Some ''http://img/batman.jpg''),
      (''Dune'', 2021, 8, None)]"

section \<open>Facts about the storage engine\<close>

lemma row_title_fst: "row_title r = fst r"
  by (cases r) simp

lemma titles_append: "titles (xs @ ys) = titles xs @ titles ys"
  by (simp add: titles_def)

lemma titles_Cons: "titles (r # rows) = row_title r # titles rows"
  by (simp add: titles_def)

lemma update_fresh: "k \<notin> fst ` set al \<Longrightarrow> AList.update k v al = al @ [(k, v)]"
  by (induction al) auto

lemma dict_of_rows_snoc:
  "dict_of_rows (rows @ [r]) = AList.update (row_title r) (row_info r) (dict_of_rows rows)"
  by (simp add: dict_of_rows_def)

lemma keys_dict_of_rows: "fst ` set (dict_of_rows rows) = set (titles rows)"
proof (induction rows rule: rev_induct)
  case Nil
  show ?case by (simp add: dict_of_rows_def titles_def)
next
  case (snoc r rows)
  have "fst ` set (AList.update (row_title r) (row_info r) (dict_of_rows rows))
          = insert (row_title r) (fst ` set (dict_of_rows rows))"
    by (metis dom_update dom_map_of_conv_image_fst update_conv' dom_fun_upd option.distinct(1))
  with snoc show ?case by (simp add: dict_of_rows_snoc titles_def)
qed

lemma dict_of_rows_distinct:
  "distinct (titles rows) \<Longrightarrow> dict_of_rows rows = map (\<lambda>r. (row_title r, row_info r)) rows"
proof (induction rows rule: rev_induct)
  case Nil
  show ?case by (simp add: dict_of_rows_def)
next
  case (snoc r rows)
  then have d: "distinct (titles rows)" and f: "row_title r \<notin> set (titles rows)"
    by (simp_all add: titles_def)
  from f have "row_title r \<notin> fst ` set (dict_of_rows rows)" by (simp add: keys_dict_of_rows)
  then show ?case using snoc.IH [OF d] by (simp add: dict_of_rows_snoc update_fresh)
qed


lemma split_title:
  assumes "ttl \<in> set (titles rows)"
  shows "\<exists>pre yr rt pu post. rows = pre @ (ttl, yr, rt, pu) # post"
proof -
  from assms obtain r where "r \<in> set rows" "row_title r = ttl" by (auto simp: titles_def)
  then obtain pre post where "rows = pre @ r # post" by (meson split_list)
  moreover obtain t yr rt pu where "r = (t, yr, rt, pu)" by (cases r)
  ultimately have "rows = pre @ (ttl, yr, rt, pu) # post" using \<open>row_title r = ttl\<close> by simp
  then show ?thesis by blast
qed

lemma filter_absent: "ttl \<notin> set (titles rows) \<Longrightarrow> filter (\<lambda>r. row_title r \<noteq> ttl) rows = rows"
  by (induction rows) (auto simp: titles_def)

lemma count_absent: "ttl \<notin> set (titles rows) \<Longrightarrow> filter (\<lambda>r. row_title r = ttl) rows = []"
  by (induction rows) (auto simp: titles_def)

lemma count_present: "ttl \<in> set (titles rows) \<Longrightarrow> 0 < length (filter (\<lambda>r. row_title r = ttl) rows)"
  by (induction rows) (auto simp: titles_def)

lemma set_rating_absent: "ttl \<notin> set (titles rows) \<Longrightarrow> map (set_rating ttl rt) rows = rows"
  by (induction rows) (auto simp: titles_def)


lemma list_movies_Table:
  "list_movies (Table rows) = \<lparr>result = Inr (dict_of_rows rows), printed = [], store = Table rows\<rparr>"
  by (simp add: list_movies_def)

lemma titles_sample_rows: "titles sample_rows = [''Catwoman'', ''Batman'', ''Dune'']"
  by (simp add: titles_def sample_rows_def)

lemma dict_of_sample_rows:
  "dict_of_rows sample_rows =
     [(''Catwoman'', \<lparr>year = 2004, rating = 17 / 5, poster_url = Some ''N/A''\<rparr>),
      (''Batman'', \<lparr>year = 1989, rating = 15 / 2, poster_url = Some ''http://img/batman.jpg''\<rparr>),
      (''Dune'', \<lparr>year = 2021, rating = 8, poster_url = None\<rparr>)]"
  by (simp add: dict_of_rows_def sample_rows_def)

text \<open>The three writing functions keep the titles of a table distinct, as the \<open>UNIQUE\<close>
  constraint demands; the empty table of \<open>create_table\<close> has them distinct.\<close>

lemma unique_titles_add: "unique_titles d \<Longrightarrow> unique_titles (store (add_movie d ttl yr rt pu))"
  by (cases d)
     (auto simp: unique_titles_def add_movie_def titles_def split: db_exn.splits)

lemma distinct_titles_filter: "distinct (titles rows) \<Longrightarrow> distinct (titles (filter P rows))"
  by (simp add: titles_def distinct_map_filter)

lemma titles_set_rating: "titles (map (set_rating ttl rt) rows) = titles rows"
  by (induction rows) (auto simp: titles_def)

lemma unique_titles_delete: "unique_titles d \<Longrightarrow> unique_titles (store (delete_movie d ttl))"
  by (cases d)
     (auto simp: unique_titles_def delete_movie_def distinct_titles_filter split: db_exn.splits)

lemma unique_titles_update: "unique_titles d \<Longrightarrow> unique_titles (store (update_movie d ttl rt))"
  by (cases d)
     (auto simp: unique_titles_def update_movie_def titles_set_rating split: db_exn.splits)

section \<open>Facts about the built-ins\<close>

lemma max_from_mem: "max_from key m xs \<in> set (m # xs)"
  by (induction xs arbitrary: m) auto




lemma min_from_max_from: "min_from key m xs = max_from (\<lambda>x. - key x) m xs"
  by (induction xs arbitrary: m) simp_all

lemma min_from_mem: "min_from key m xs \<in> set (m # xs)"
  unfolding min_from_max_from by (rule max_from_mem)



lemma py_sorted_reverse_mset: "mset (py_sorted_reverse key xs) = mset xs"
  by (simp add: py_sorted_reverse_def)

lemma py_sorted_reverse_descending:
  "sorted_wrt (\<lambda>a b. key a \<ge> key b) (py_sorted_reverse key xs)"
proof -
  have "sorted (map key (sort_key key (rev xs)))" by (rule sorted_sort_key)
  then have "sorted_wrt (\<lambda>a b. key a \<le> key b) (sort_key key (rev xs))"
    by (simp add: sorted_map)
  then show ?thesis by (simp add: py_sorted_reverse_def sorted_wrt_rev)
qed

lemma py_sorted_reverse_stable:
  "filter (\<lambda>x. key x = k) (py_sorted_reverse key xs) = filter (\<lambda>x. key x = k) xs"
proof -
  have "filter (\<lambda>x. key x = k) (py_sorted_reverse key xs)
          = rev (filter (\<lambda>x. key x = k) (sort_key key (rev xs)))"
    by (simp add: py_sorted_reverse_def rev_filter)
  also have "\<dots> = rev (filter (\<lambda>x. key x = k) (rev xs))"
    by (simp only: sort_key_stable)
  also have "\<dots> = filter (\<lambda>x. key x = k) xs" by (simp add: rev_filter)
  finally show ?thesis .
qed












section \<open>Facts about the catalog\<close>






lemma movies_sorted_by_rating_store: "store (movies_sorted_by_rating ev d) = d"
  by (cases d)
     (auto simp: movies_sorted_by_rating_def list_movies_def Let_def split: sum.splits db_exn.splits)





lemma page_title_no_underscore: "CHR ''_'' \<notin> set ''My Movie App''"
  by simp






section \<open>The claims\<close>





text \<open>
  C3. In a table with distinct titles, \<open>delete_movie\<close> on a title that is present removes
  the one record with that title, leaves the rows before and after it as they were, and
  prints \<open>deleted successfully\<close>; on a title that is absent it prints \<open>not found\<close> and
  leaves the table unchanged.
\<close>

theorem delete_movie_found_or_not:
  "(distinct (titles rows) \<and> ttl \<in> set (titles rows) \<longrightarrow>
      (\<exists>pre yr rt pu post.
          rows = pre @ (ttl, yr, rt, pu) # post
        \<and> delete_movie (Table rows) ttl =
            \<lparr>result = Inr (), printed = [movie_msg ttl ''deleted successfully.''],
             store = Table (pre @ post)\<rparr>))
   \<and> (ttl \<notin> set (titles rows) \<longrightarrow>
      delete_movie (Table rows) ttl =
        \<lparr>result = Inr (), printed = [movie_msg ttl ''not found.''], store = Table rows\<rparr>)"
proof (intro conjI impI)
  assume h: "distinct (titles rows) \<and> ttl \<in> set (titles rows)"
  then obtain pre yr rt pu post where rows: "rows = pre @ (ttl, yr, rt, pu) # post"
    using split_title by blast
  with h have "distinct (titles pre @ ttl # titles post)"
    by (clarsimp simp: titles_append titles_Cons)
  then have "ttl \<notin> set (titles pre)" "ttl \<notin> set (titles post)"
    by simp_all
  then have "filter (\<lambda>r. row_title r \<noteq> ttl) rows = pre @ post"
    and "filter (\<lambda>r. row_title r = ttl) rows = [(ttl, yr, rt, pu)]"
    by (simp_all add: rows filter_absent count_absent)
  then have "delete_movie (Table rows) ttl =
        \<lparr>result = Inr (), printed = [movie_msg ttl ''deleted successfully.''],
         store = Table (pre @ post)\<rparr>"
    by (simp add: delete_movie_def)
  with rows show "\<exists>pre yr rt pu post.
          rows = pre @ (ttl, yr, rt, pu) # post
        \<and> delete_movie (Table rows) ttl =
            \<lparr>result = Inr (), printed = [movie_msg ttl ''deleted successfully.''],
             store = Table (pre @ post)\<rparr>"
    by blast
next
  assume "ttl \<notin> set (titles rows)"
  then show "delete_movie (Table rows) ttl =
        \<lparr>result = Inr (), printed = [movie_msg ttl ''not found.''], store = Table rows\<rparr>"
    by (simp add: delete_movie_def filter_absent count_absent)
qed

theorem delete_movie_found_or_not_witness:
  "distinct (titles sample_rows) \<and> ''Batman'' \<in> set (titles sample_rows)
   \<and> delete_movie (Table sample_rows) ''Batman'' =
       \<lparr>result = Inr (), printed = [movie_msg ''Batman'' ''deleted successfully.''],
        store = Table [(''Catwoman'', 2004, 17 / 5, Some ''N/A''), (''Dune'', 2021, 8, None)]\<rparr>
   \<and> ''Alien'' \<notin> set (titles sample_rows)
   \<and> delete_movie (Table sample_rows) ''Alien'' =
       \<lparr>result = Inr (), printed = [movie_msg ''Alien'' ''not found.''], store = Table sample_rows\<rparr>"
proof -
  have h: "distinct (titles sample_rows)" "''Batman'' \<in> set (titles sample_rows)"
    "''Alien'' \<notin> set (titles sample_rows)"
    by (simp_all add: titles_sample_rows)
  have "delete_movie (Table sample_rows) ''Batman'' =
       \<lparr>result = Inr (), printed = [movie_msg ''Batman'' ''deleted successfully.''],
        store = Table [(''Catwoman'', 2004, 17 / 5, Some ''N/A''), (''Dune'', 2021, 8, None)]\<rparr>"
    using delete_movie_found_or_not [of sample_rows "''Batman''"] h
    by (simp add: delete_movie_def sample_rows_def)
  moreover have "delete_movie (Table sample_rows) ''Alien'' =
       \<lparr>result = Inr (), printed = [movie_msg ''Alien'' ''not found.''], store = Table sample_rows\<rparr>"
    using delete_movie_found_or_not [of sample_rows "''Alien''"] h by blast
  ultimately show ?thesis using h by blast
qed

text \<open>
  C4. In a table with distinct titles, \<open>update_movie\<close> on a title that is present replaces
  the rating of the one record with that title, keeps its year and poster and every other
  row, and prints \<open>updated successfully\<close>; on a title that is absent it prints
  \<open>not found\<close> and leaves the table unchanged.
\<close>

theorem update_movie_found_or_not:
  "(distinct (titles rows) \<and> ttl \<in> set (titles rows) \<longrightarrow>
      (\<exists>pre yr old pu post.
          rows = pre @ (ttl, yr, old, pu) # post
        \<and> update_movie (Table rows) ttl rt =
            \<lparr>result = Inr (), printed = [movie_msg ttl ''updated successfully.''],
             store = Table (pre @ (ttl, yr, rt, pu) # post)\<rparr>))
   \<and> (ttl \<notin> set (titles rows) \<longrightarrow>
      update_movie (Table rows) ttl rt =
        \<lparr>result = Inr (), printed = [movie_msg ttl ''not found.''], store = Table rows\<rparr>)"
proof (intro conjI impI)
  assume h: "distinct (titles rows) \<and> ttl \<in> set (titles rows)"
  then obtain pre yr old pu post where rows: "rows = pre @ (ttl, yr, old, pu) # post"
    using split_title by blast
  with h have "distinct (titles pre @ ttl # titles post)"
    by (clarsimp simp: titles_append titles_Cons)
  then have "ttl \<notin> set (titles pre)" "ttl \<notin> set (titles post)"
    by simp_all
  then have "map (set_rating ttl rt) rows = pre @ (ttl, yr, rt, pu) # post"
    and "filter (\<lambda>r. row_title r = ttl) rows = [(ttl, yr, old, pu)]"
    by (simp_all add: rows set_rating_absent count_absent)
  then have "update_movie (Table rows) ttl rt =
        \<lparr>result = Inr (), printed = [movie_msg ttl ''updated successfully.''],
         store = Table (pre @ (ttl, yr, rt, pu) # post)\<rparr>"
    by (simp add: update_movie_def)
  with rows show "\<exists>pre yr old pu post.
          rows = pre @ (ttl, yr, old, pu) # post
        \<and> update_movie (Table rows) ttl rt =
            \<lparr>result = Inr (), printed = [movie_msg ttl ''updated successfully.''],
             store = Table (pre @ (ttl, yr, rt, pu) # post)\<rparr>"
    by blast
next
  assume "ttl \<notin> set (titles rows)"
  then show "update_movie (Table rows) ttl rt =
        \<lparr>result = Inr (), printed = [movie_msg ttl ''not found.''], store = Table rows\<rparr>"
    by (simp add: update_movie_def set_rating_absent count_absent)
qed

theorem update_movie_found_or_not_witness:
  "distinct (titles sample_rows) \<and> ''Batman'' \<in> set (titles sample_rows)
   \<and> update_movie (Table sample_rows) ''Batman'' 9 =
       \<lparr>result = Inr (), printed = [movie_msg ''Batman'' ''updated successfully.''],
        store = Table [(''Catwoman'', 2004, 17 / 5, Some ''N/A''),
                       (''Batman'', 1989, 9, Some ''http://img/batman.jpg''),
                       (''Dune'', 2021, 8, None)]\<rparr>
   \<and> ''Alien'' \<notin> set (titles sample_rows)
   \<and> update_movie (Table sample_rows) ''Alien'' 9 =
       \<lparr>result = Inr (), printed = [movie_msg ''Alien'' ''not found.''], store = Table sample_rows\<rparr>"
proof -
  have h: "distinct (titles sample_rows)" "''Batman'' \<in> set (titles sample_rows)"
    "''Alien'' \<notin> set (titles sample_rows)"
    by (simp_all add: titles_sample_rows)
  have "update_movie (Table sample_rows) ''Batman'' 9 =
       \<lparr>result = Inr (), printed = [movie_msg ''Batman'' ''updated successfully.''],
        store = Table [(''Catwoman'', 2004, 17 / 5, Some ''N/A''),
                       (''Batman'', 1989, 9, Some ''http://img/batman.jpg''),
                       (''Dune'', 2021, 8, None)]\<rparr>"
    using update_movie_found_or_not [of sample_rows "''Batman''" 9] h
    by (simp add: update_movie_def sample_rows_def)
  moreover have "update_movie (Table sample_rows) ''Alien'' 9 =
       \<lparr>result = Inr (), printed = [movie_msg ''Alien'' ''not found.''], store = Table sample_rows\<rparr>"
    using update_movie_found_or_not [of sample_rows "''Alien''" 9] h by blast
  ultimately show ?thesis using h by blast
qed



text \<open>
  C6. \<open>movies_sorted_by_rating\<close> prints one line per record of the sorted list. That list
  holds exactly the records of the dictionary, in order of descending rating, and records
  of equal rating keep the order they have in the dictionary. The store is left as it was,
  so a second call gives the same result. On \<open>{A: 7, B: 9, C: 3}\<close> the order is B, A, C.
\<close>

theorem movies_sorted_by_rating_correct:
  "(dict_of_rows rows \<noteq> [] \<longrightarrow>
      movies_sorted_by_rating ev (Table rows) =
        \<lparr>result = Inr (),
         printed =
           ([CHR 0x0A] @ THEME @ ''  MOVIES SORTED BY RATING:'' @ RESET @ [CHR 0x0A]) #
           map (\<lambda>(ttl, nfo). THEME @ format_movie_line ev ttl nfo @ RESET)
             (py_sorted_reverse (\<lambda>x. rating (snd x)) (dict_of_rows rows)),
         store = Table rows\<rparr>)
   \<and> mset (py_sorted_reverse (\<lambda>x. rating (snd x)) (dict_of_rows rows)) = mset (dict_of_rows rows)
   \<and> sorted_wrt (\<lambda>a b. rating (snd a) \<ge> rating (snd b))
        (py_sorted_reverse (\<lambda>x. rating (snd x)) (dict_of_rows rows))
   \<and> (\<forall>k. filter (\<lambda>x. rating (snd x) = k)
               (py_sorted_reverse (\<lambda>x. rating (snd x)) (dict_of_rows rows))
           = filter (\<lambda>x. rating (snd x) = k) (dict_of_rows rows))
   \<and> movies_sorted_by_rating ev (store (movies_sorted_by_rating ev d)) = movies_sorted_by_rating ev d
   \<and> map fst (py_sorted_reverse (\<lambda>x. rating (snd x))
                 (dict_of_rows [(''A'', ya, 7, pa), (''B'', yb, 9, pb), (''C'', yc, 3, pc)]))
        = [''B'', ''A'', ''C'']"
proof (intro conjI impI allI)
  assume "dict_of_rows rows \<noteq> []"
  then show "movies_sorted_by_rating ev (Table rows) =
        \<lparr>result = Inr (),
         printed =
           ([CHR 0x0A] @ THEME @ ''  MOVIES SORTED BY RATING:'' @ RESET @ [CHR 0x0A]) #
           map (\<lambda>(ttl, nfo). THEME @ format_movie_line ev ttl nfo @ RESET)
             (py_sorted_reverse (\<lambda>x. rating (snd x)) (dict_of_rows rows)),
         store = Table rows\<rparr>"
    by (simp add: movies_sorted_by_rating_def list_movies_Table Let_def)
next
  show "mset (py_sorted_reverse (\<lambda>x. rating (snd x)) (dict_of_rows rows)) = mset (dict_of_rows rows)"
    by (rule py_sorted_reverse_mset)
next
  show "sorted_wrt (\<lambda>a b. rating (snd a) \<ge> rating (snd b))
        (py_sorted_reverse (\<lambda>x. rating (snd x)) (dict_of_rows rows))"
    by (rule py_sorted_reverse_descending)
next
  fix k
  show "filter (\<lambda>x. rating (snd x) = k)
               (py_sorted_reverse (\<lambda>x. rating (snd x)) (dict_of_rows rows))
           = filter (\<lambda>x. rating (snd x) = k) (dict_of_rows rows)"
    by (rule py_sorted_reverse_stable)
next
  show "movies_sorted_by_rating ev (store (movies_sorted_by_rating ev d)) = movies_sorted_by_rating ev d"
    by (simp only: movies_sorted_by_rating_store)
next
  show "map fst (py_sorted_reverse (\<lambda>x. rating (snd x))
                 (dict_of_rows [(''A'', ya, 7, pa), (''B'', yb, 9, pb), (''C'', yc, 3, pc)]))
        = [''B'', ''A'', ''C'']"
    by (simp add: dict_of_rows_def py_sorted_reverse_def)
qed

theorem movies_sorted_by_rating_correct_witness:
  "dict_of_rows sample_rows \<noteq> []
   \<and> movies_sorted_by_rating sample_env (Table sample_rows) =
       \<lparr>result = Inr (),
        printed =
          ([CHR 0x0A] @ THEME @ ''  MOVIES SORTED BY RATING:'' @ RESET @ [CHR 0x0A]) #
          map (\<lambda>(ttl, nfo). THEME @ format_movie_line sample_env ttl nfo @ RESET)
            [(''Dune'', \<lparr>year = 2021, rating = 8, poster_url = None\<rparr>),
             (''Batman'', \<lparr>year = 1989, rating = 15 / 2, poster_url = Some ''http://img/batman.jpg''\<rparr>),
             (''Catwoman'', \<lparr>year = 2004, rating = 17 / 5, poster_url = Some ''N/A''\<rparr>)],
        store = Table sample_rows\<rparr>"
proof -
  have h: "dict_of_rows sample_rows \<noteq> []" by (simp add: dict_of_sample_rows)
  have s: "py_sorted_reverse (\<lambda>x. rating (snd x)) (dict_of_rows sample_rows) =
            [(''Dune'', \<lparr>year = 2021, rating = 8, poster_url = None\<rparr>),
             (''Batman'', \<lparr>year = 1989, rating = 15 / 2, poster_url = Some ''http://img/batman.jpg''\<rparr>),
             (''Catwoman'', \<lparr>year = 2004, rating = 17 / 5, poster_url = Some ''N/A''\<rparr>)]"
    by (simp add: dict_of_sample_rows py_sorted_reverse_def)
  show ?thesis
    using movies_sorted_by_rating_correct [of sample_rows sample_env] h
    by (simp only: s) blast
qed







text \<open>
  C9. On a store that raises, \<open>list_movies\<close> returns the empty dictionary and prints
  \<open>Database error: ..\<close> when the exception is an \<open>OperationalError\<close>; an exception of any
  other class leaves the function.
\<close>

theorem list_movies_broken:
  "list_movies (Broken x) =
     (case x of
        OperationalError e \<Rightarrow> \<lparr>result = Inr [], printed = [db_error_msg e], store = Broken x\<rparr>
      | _ \<Rightarrow> \<lparr>result = Inl (StorageError x), printed = [], store = Broken x\<rparr>)"
  by (cases x) (simp_all add: list_movies_def)

text \<open>A store whose file is not a database raises a \<open>DatabaseError\<close>, which
  \<open>list_movies\<close> lets through.\<close>

theorem list_movies_raises_counterexample:
  "result (list_movies (Broken (DatabaseError ''file is not a database''))) =
     Inl (StorageError (DatabaseError ''file is not a database''))"
  by (simp add: list_movies_def)



end
